theory Spec2Isabelle
  imports Main
begin

section \<open>Data model of \<^verbatim>\<open>helpdesk/libs/notification.py\<close>\<close>

text \<open>
  Every exception the module can raise, or let through from a library or a collaborator,
  is a value of \<open>error\<close>; a fallible operation returns \<open>error + 'a\<close> with \<open>Inl\<close>
  for the raised exception.
\<close>

datatype error =
    TemplateNotFound
  | ParseError
  | TypeError
  | KeyError
  | ValueError
  | PolicyLookupError
  | SMTPConnectError
  | SMTPAuthenticationError
  | SMTPRecipientsRefused
  | SMTPServerDisconnected
  | ConnectionError
  | Timeout
  | JSONDecodeError
  | HTTPError

text \<open>
  A Python value as \<open>json.loads\<close> yields it and as the free-form annotation of a ticket
  stores it. A finite float is the pair \<open>m\<close>, \<open>e\<close> of its value \<open>m * 2 ^ e\<close>;
  \<open>PNonFinite\<close> stands for NaN and the infinities. A parsed object has each key once.
\<close>

datatype pyobj =
    PNone
  | PBool bool
  | PInt int
  | PFloat int int
  | PNonFinite
  | PStr string
  | PList "pyobj list"
  | PDict "(string \<times> pyobj) list"

text \<open>
  Modelled from the spec: the enumeration \<^verbatim>\<open>helpdesk.models.db.ticket.TicketPhase\<close> is
  not part of the source at hand. A member of a Python \<open>Enum\<close> is determined by its
  value, so a phase is its \<open>.value\<close>; the three members the module names carry the values
  it compares against (\<^verbatim>\<open>'request'\<close>, \<^verbatim>\<open>'approval'\<close>, \<^verbatim>\<open>'mark'\<close>).
\<close>

datatype TicketPhase = TicketPhase (phase_value: string)

definition REQUEST :: TicketPhase where
  "REQUEST = TicketPhase ''request''"

definition APPROVAL :: TicketPhase where
  "APPROVAL = TicketPhase ''approval''"

definition MARK :: TicketPhase where
  "MARK = TicketPhase ''mark''"

text \<open>
  A node descriptor is a dict read with \<^verbatim>\<open>.get\<close>: a missing key reads as \<open>None\<close>.
\<close>

record node =
  name :: "string option"
  node_type :: "string option"

text \<open>
  The annotation is a dict read with \<^verbatim>\<open>.get\<close> throughout: \<open>None\<close> is a missing key
  (or a stored \<open>None\<close>). The annotation's own \<^verbatim>\<open>reason\<close> key is \<open>ann_reason\<close>.
\<close>

record annotation =
  current_node :: "string option"
  nodes :: "node list option"
  policy :: pyobj
  approvers :: pyobj
  approval_log :: pyobj
  ann_reason :: "string option"

text \<open>
  Modelled from the spec: the ticket class \<^verbatim>\<open>helpdesk.models.db.ticket\<close> is not part of
  the source at hand; the fields are the attributes the module reads. \<open>is_approved\<close> is
  tri-state, \<open>reason\<close> may be \<open>None\<close>; \<open>params\<close> keeps its order and holds each value
  as the text an f-string prints for it, as does \<open>created_at\<close>.
\<close>

record ticket =
  title :: string
  submitter :: string
  ccs :: "string list"
  reason :: "string option"
  status :: string
  created_at :: string
  confirmed_by :: string
  is_approved :: "bool option"
  is_auto_approved :: bool
  web_url :: string
  params :: "(string \<times> string) list"
  color :: string
  annotation :: annotation

text \<open>
  Modelled from the spec: \<^verbatim>\<open>helpdesk.views.api.schemas.NotifyMessage\<close> is not part of the
  source at hand; the spec lists its fields, \<open>is_approved\<close> being a boolean.
\<close>

record NotifyMessage =
  nm_phase :: string
  nm_title :: string
  nm_ticket_url :: string
  nm_status :: string
  nm_is_approved :: bool
  nm_submitter :: string
  nm_params :: "(string \<times> string) list"
  nm_request_time :: string
  nm_reason :: string
  nm_approval_flow :: pyobj
  nm_current_node :: "string option"
  nm_approvers :: pyobj
  nm_next_node :: "string option"
  nm_approval_log :: pyobj
  nm_notify_type :: "string option"

text \<open>An element of \<^verbatim>\<open>xml.etree.ElementTree\<close>: tag, text (possibly \<open>None\<close>), children.\<close>

datatype element = Element (tag: string) (etext: "string option") (children: "element list")

text \<open>The chat card posted to Lark.\<close>

record button =
  btn_tag :: string
  btn_text_tag :: string
  btn_text_content :: string
  btn_type :: string
  btn_url :: string

datatype card_element =
    Markdown string
  | Action "button list"

record card =
  wide_screen_mode :: bool
  elements :: "card_element list"
  header_title_content :: string
  header_title_tag :: string

text \<open>
  One call of \<^verbatim>\<open>requests.post\<close>: the URL, what is sent, and the timeout if one is given.
\<close>

datatype payload =
    JsonObject "(string \<times> string) list"
  | JsonCard string card
  | DataEvent NotifyMessage

record http_request =
  req_url :: string
  req_payload :: payload
  req_timeout :: "nat option"

text \<open>
  A response: its status code, and what \<^verbatim>\<open>r.json()\<close> gives (an exception when the body
  is not JSON).
\<close>

record response =
  status_code :: int
  json :: "error + pyobj"

record email =
  msg_content :: string
  msg_subject :: string
  msg_from :: string
  msg_to :: string

datatype smtp_event =
    Connect bool string nat
  | Login string string
  | SendMessage email
  | Quit

text \<open>The policy object, by its one method the module calls.\<close>

datatype flow_policy = FlowPolicy (get_node_approvers: "string option \<Rightarrow> error + string")

text \<open>The values imported from \<^verbatim>\<open>helpdesk.config\<close>, taken as parameters.\<close>

record config =
  NOTIFICATION_TITLE_PREFIX :: string
  WEBHOOK_URL :: "string option"
  LARK_WEBHOOK_URL :: "string option"
  WEBHOOK_EVENT_URL :: "string option"
  ADMIN_EMAIL_ADDRS :: "string option"
  FROM_EMAIL_ADDR :: string
  SMTP_SERVER :: string
  SMTP_SERVER_PORT :: nat
  SMTP_SSL :: bool
  SMTP_CREDENTIALS :: "string option"
  get_user_email :: "string \<Rightarrow> string option"

text \<open>
  The collaborators outside the module, taken as parameters: the template engine
  (\<^verbatim>\<open>_templates.get_template(name).render(dict(ticket=ticket))\<close>), the XML parser, the
  ticket's policy lookups, the SMTP server (what each call raises, if anything), the
  e-mail library's header validation, and the HTTP endpoint.
\<close>

record collab =
  template_render :: "string \<Rightarrow> ticket \<Rightarrow> error + string"
  ET_fromstring :: "string \<Rightarrow> error + element"
  get_flow_policy :: "ticket \<Rightarrow> error + flow_policy"
  get_rule_actions :: "ticket \<Rightarrow> string \<Rightarrow> error + string list"
  smtp_open :: "bool \<Rightarrow> string \<Rightarrow> nat \<Rightarrow> error option"
  smtp_login :: "string \<Rightarrow> string \<Rightarrow> error option"
  smtp_send_message :: "email \<Rightarrow> error option"
  smtp_quit :: "error option"
  email_build :: "email \<Rightarrow> error option"
  requests_post :: "http_request \<Rightarrow> error + response"

text \<open>
  What a run leaves behind: the HTTP calls made, the number of calls of
  \<^verbatim>\<open>helpdesk.libs.sentry.report\<close>, and the SMTP calls made, each in order.
\<close>

record world =
  http_log :: "http_request list"
  reports :: nat
  smtp_log :: "smtp_event list"

section \<open>Python primitives the module relies on\<close>

text \<open>
  A character stands for a code point below 256. \<^verbatim>\<open>str.strip()\<close> removes the
  characters \<^verbatim>\<open>str.isspace\<close> accepts; among the code points below 256 these are
  9 to 13, 28 to 32, 133 (NEL) and 160 (no-break space).
\<close>

definition py_isspace :: "char \<Rightarrow> bool" where
  "py_isspace c = (c \<in> set [CHR 0x09, CHR 0x0A, CHR 0x0B, CHR 0x0C, CHR 0x0D,
                             CHR 0x1C, CHR 0x1D, CHR 0x1E, CHR 0x1F, CHR 0x20,
                             CHR 0x85, CHR 0xA0])"

definition strip :: "string \<Rightarrow> string" where
  "strip s = rev (dropWhile py_isspace (rev (dropWhile py_isspace s)))"

text \<open>\<^verbatim>\<open>s.split(c)\<close> for a separator of one character: never an empty list.\<close>

fun split :: "char \<Rightarrow> string \<Rightarrow> string list" where
  "split c [] = [[]]"
| "split c (x # xs) =
     (if x = c then [] # split c xs
      else (case split c xs of [] \<Rightarrow> [[x]] | s # ss \<Rightarrow> (x # s) # ss))"

text \<open>\<^verbatim>\<open>sep.join(xs)\<close>.\<close>

fun join :: "string \<Rightarrow> string list \<Rightarrow> string" where
  "join sep [] = []"
| "join sep [x] = x"
| "join sep (x # y # ys) = x @ sep @ join sep (y # ys)"

text \<open>What an f-string prints for a value that is a string or \<open>None\<close>.\<close>

definition str_of :: "string option \<Rightarrow> string" where
  "str_of x = (case x of None \<Rightarrow> ''None'' | Some s \<Rightarrow> s)"

text \<open>\<^verbatim>\<open>addr for addr in email_addrs if addr\<close>: \<open>None\<close> and the empty string are falsy.\<close>

fun truthy_addrs :: "string option list \<Rightarrow> string list" where
  "truthy_addrs [] = []"
| "truthy_addrs (None # as) = truthy_addrs as"
| "truthy_addrs (Some a # as) = (if a = [] then truthy_addrs as else a # truthy_addrs as)"

text \<open>\<^verbatim>\<open>x or False\<close> on a tri-state boolean.\<close>

definition or_False :: "bool option \<Rightarrow> bool" where
  "or_False x = (case x of Some True \<Rightarrow> True | _ \<Rightarrow> False)"

text \<open>\<^verbatim>\<open>obj[key]\<close> for a string key: only a dict accepts it, and only for a key it has.\<close>

definition getitem :: "pyobj \<Rightarrow> string \<Rightarrow> error + pyobj" where
  "getitem obj k =
     (case obj of
        PDict kvs \<Rightarrow> (case map_of kvs k of None \<Rightarrow> Inl KeyError | Some v \<Rightarrow> Inr v)
      | _ \<Rightarrow> Inl TypeError)"

text \<open>\<^verbatim>\<open>v == 0\<close>: true of the numbers equal to zero, \<open>False\<close> among them.\<close>

definition eq_zero :: "pyobj \<Rightarrow> bool" where
  "eq_zero v =
     (case v of
        PInt i \<Rightarrow> i = 0
      | PBool b \<Rightarrow> \<not> b
      | PFloat m e \<Rightarrow> m = 0
      | _ \<Rightarrow> False)"

text \<open>\<^verbatim>\<open>tree.findall(t)\<close> for a plain tag: the direct children with that tag, in order.\<close>

definition findall :: "element \<Rightarrow> string \<Rightarrow> element list" where
  "findall tree t = filter (\<lambda>c. tag c = t) (children tree)"

text \<open>
  \<^verbatim>\<open>''.join(piece.text for piece in pieces)\<close>: \<open>str.join\<close> raises \<open>TypeError\<close> on an
  item that is \<open>None\<close>.
\<close>

fun join_text :: "element list \<Rightarrow> error + string" where
  "join_text [] = Inr []"
| "join_text (p # ps) =
     (case etext p of
        None \<Rightarrow> Inl TypeError
      | Some s \<Rightarrow> (case join_text ps of Inl e \<Rightarrow> Inl e | Inr r \<Rightarrow> Inr (s @ r)))"

text \<open>
  \<^verbatim>\<open>Response.raise_for_status()\<close> of the requests library: \<open>HTTPError\<close> for a client
  error (400 to 499) or a server error (500 to 599), nothing otherwise.
\<close>

definition raise_for_status :: "response \<Rightarrow> error + unit" where
  "raise_for_status r =
     (if 400 \<le> status_code r \<and> status_code r < 600 then Inl HTTPError else Inr ())"

text \<open>\<^verbatim>\<open>requests.post\<close>: the call is made, and answers or raises.\<close>

definition post :: "collab \<Rightarrow> http_request \<Rightarrow> world \<Rightarrow> (error + response) \<times> world" where
  "post ext rq w = (requests_post ext rq, w\<lparr>http_log := http_log w @ [rq]\<rparr>)"

text \<open>
  Modelled from the spec: \<^verbatim>\<open>helpdesk.libs.sentry.report\<close> is not part of the source at
  hand; the diagnostic sink takes the report and returns.
\<close>

definition report :: "world \<Rightarrow> (error + unit) \<times> world" where
  "report w = (Inr (), w\<lparr>reports := Suc (reports w)\<rparr>)"

definition smtp_call :: "smtp_event \<Rightarrow> world \<Rightarrow> world" where
  "smtp_call ev w = w\<lparr>smtp_log := smtp_log w @ [ev]\<rparr>"

section \<open>\<^verbatim>\<open>Notification\<close>\<close>

definition render :: "collab \<Rightarrow> string \<Rightarrow> TicketPhase \<Rightarrow> ticket \<Rightarrow> error + string \<times> string" where
  "render ext meth phase t =
     (case template_render ext (meth @ ''/'' @ phase_value phase @ ''.j2'') t of
        Inl e \<Rightarrow> Inl e
      | Inr message \<Rightarrow>
          (case ET_fromstring ext (strip message) of
             Inl e \<Rightarrow> Inl e
           | Inr tree \<Rightarrow>
               (case join_text (findall tree ''title'') of
                  Inl e \<Rightarrow> Inl e
                | Inr ttl \<Rightarrow>
                    (case join_text (findall tree ''content'') of
                       Inl e \<Rightarrow> Inl e
                     | Inr content \<Rightarrow> Inr (ttl, content)))))"

definition get_approvers :: "collab \<Rightarrow> ticket \<Rightarrow> error + string" where
  "get_approvers ext t =
     (case get_flow_policy ext t of
        Inl e \<Rightarrow> Inl e
      | Inr pol \<Rightarrow> get_node_approvers pol (current_node (annotation t)))"

section \<open>\<^verbatim>\<open>MailNotification\<close>\<close>

definition get_mail_addrs :: "config \<Rightarrow> collab \<Rightarrow> TicketPhase \<Rightarrow> ticket \<Rightarrow> error + string" where
  "get_mail_addrs cfg ext phase t =
     (case get_approvers ext t of
        Inl e \<Rightarrow> Inl e
      | Inr apprs \<Rightarrow>
          (let email_addrs = [ADMIN_EMAIL_ADDRS cfg] @ map (get_user_email cfg) (ccs t)
                               @ map Some (split CHR '','' apprs)
           in case get_rule_actions ext t ''approver'' of
                Inl e \<Rightarrow> Inl e
              | Inr acts \<Rightarrow>
                  (let email_addrs = email_addrs @ map (get_user_email cfg) acts;
                       email_addrs =
                         (if phase_value phase \<in> set [''approval'', ''mark'']
                          then email_addrs @ [get_user_email cfg (submitter t)]
                          else email_addrs)
                   in Inr (join '','' (truthy_addrs email_addrs)))))"

text \<open>
  Lines 93 to 95 of \<^verbatim>\<open>send\<close>: with credentials configured, they are split at the colon
  into exactly two parts (anything else fails to unpack) and the session logs in.
\<close>

definition login_step :: "config \<Rightarrow> collab \<Rightarrow> world \<Rightarrow> (error + unit) \<times> world" where
  "login_step cfg ext w =
     (case SMTP_CREDENTIALS cfg of
        None \<Rightarrow> (Inr (), w)
      | Some creds \<Rightarrow>
          if creds = [] then (Inr (), w)
          else (case split CHR '':'' creds of
                  [user, password] \<Rightarrow>
                    (case smtp_login ext user password of
                       Some e \<Rightarrow> (Inl e, smtp_call (Login user password) w)
                     | None \<Rightarrow> (Inr (), smtp_call (Login user password) w))
                | _ \<Rightarrow> (Inl ValueError, w)))"

text \<open>
  Lines 103 to 106: \<^verbatim>\<open>try: smtp.send_message(msg) finally: smtp.quit()\<close>. The
  \<^verbatim>\<open>finally\<close> block runs whatever the \<^verbatim>\<open>try\<close> block did; an exception of its own
  replaces the pending one.
\<close>

definition send_and_quit :: "collab \<Rightarrow> email \<Rightarrow> world \<Rightarrow> (error + unit) \<times> world" where
  "send_and_quit ext msg w =
     (let w1 = smtp_call (SendMessage msg) w;
          sent = smtp_send_message ext msg;
          w2 = smtp_call Quit w1
      in case smtp_quit ext of
           Some e \<Rightarrow> (Inl e, w2)
         | None \<Rightarrow> (case sent of Some e \<Rightarrow> (Inl e, w2) | None \<Rightarrow> (Inr (), w2)))"

definition mail_send ::
  "config \<Rightarrow> collab \<Rightarrow> TicketPhase \<Rightarrow> ticket \<Rightarrow> world \<Rightarrow> (error + unit) \<times> world" where
  "mail_send cfg ext phase t w =
     (case get_mail_addrs cfg ext phase t of
        Inl e \<Rightarrow> (Inl e, w)
      | Inr addrs \<Rightarrow>
          (case render ext ''mail'' phase t of
             Inl e \<Rightarrow> (Inl e, w)
           | Inr (ttl, content) \<Rightarrow>
               (case smtp_open ext (SMTP_SSL cfg) (SMTP_SERVER cfg) (SMTP_SERVER_PORT cfg) of
                  Some e \<Rightarrow> (Inl e, w)
                | None \<Rightarrow>
                    (case login_step cfg ext
                            (smtp_call (Connect (SMTP_SSL cfg) (SMTP_SERVER cfg) (SMTP_SERVER_PORT cfg)) w) of
                       (Inl e, w1) \<Rightarrow> (Inl e, w1)
                     | (Inr u, w1) \<Rightarrow>
                         (let msg = \<lparr>msg_content = strip content,
                                     msg_subject = NOTIFICATION_TITLE_PREFIX cfg @ ttl,
                                     msg_from = FROM_EMAIL_ADDR cfg,
                                     msg_to = addrs\<rparr>
                          in case email_build ext msg of
                               Some e \<Rightarrow> (Inl e, w1)
                             | None \<Rightarrow> send_and_quit ext msg w1)))))"

section \<open>\<^verbatim>\<open>WebhookNotification\<close>\<close>

definition get_color :: "TicketPhase \<Rightarrow> ticket \<Rightarrow> string" where
  "get_color phase t =
     (if phase_value phase \<noteq> ''request'' then color t
      else if is_approved t = Some True then ''#17a2b8''
      else ''#ffc107'')"

definition webhook_send ::
  "config \<Rightarrow> collab \<Rightarrow> TicketPhase \<Rightarrow> ticket \<Rightarrow> world \<Rightarrow> (error + unit) \<times> world" where
  "webhook_send cfg ext phase t w =
     (case WEBHOOK_URL cfg of
        None \<Rightarrow> (Inr (), w)
      | Some url \<Rightarrow>
          if url = [] then (Inr (), w)
          else (case render ext ''webhook'' phase t of
                  Inl e \<Rightarrow> (Inl e, w)
                | Inr (ttl, content) \<Rightarrow>
                    (let link = web_url t;
                         msg = [(''from'', ''helpdesk''),
                                (''title'', ttl),
                                (''link'', link),
                                (''color'', get_color phase t),
                                (''text'', ttl @ ''\<newline>'' @ link @ ''\<newline>'' @ content),
                                (''markdown'', content)]
                     in case post ext \<lparr>req_url = url, req_payload = JsonObject msg,
                                         req_timeout = Some 3\<rparr> w of
                          (Inl e, w1) \<Rightarrow> (Inl e, w1)
                        | (Inr r, w1) \<Rightarrow> (raise_for_status r, w1))))"

section \<open>\<^verbatim>\<open>LarkWebhookNotification\<close>\<close>

text \<open>Lines 151 to 155 of \<^verbatim>\<open>render\<close>: what every phase starts its content with.\<close>

definition lark_header :: "ticket \<Rightarrow> string" where
  "lark_header t =
     (let content = ''[Ticket url]('' @ web_url t @ '')\<newline>'';
          content = content @ ''Parameters:\<newline>'';
          content = foldl (\<lambda>c (n, v). c @ ''  '' @ n @ '': '' @ v @ ''\<newline>'') content (params t)
      in content @ ''Request time: '' @ created_at t @ ''\<newline>'')"

definition lark_render :: "TicketPhase \<Rightarrow> ticket \<Rightarrow> string \<times> string" where
  "lark_render phase t =
     (let content = lark_header t
      in if phase = REQUEST then
           (let ttl = ''[helpdesk]'' @ submitter t @ ''  requested to '' @ title t;
                content = content @ ''Reason: '' @ str_of (reason t) @ ''\<newline>''
            in (ttl, if is_auto_approved t then content @ ''auto approved\<newline>'' else content))
         else if phase = APPROVAL then
           (if is_approved t = Some True then
              (''[helpdesk approved]'' @ submitter t @ '''s request to '' @ title t
                 @ '' was approved by '' @ confirmed_by t,
               content @ ''Reason: '' @ str_of (reason t) @ ''\<newline>'')
            else
              (''[helpdesk approved]'' @ submitter t @ '''s request to '' @ title t
                 @ '' was rejected by '' @ confirmed_by t,
               if reason t \<noteq> ann_reason (annotation t)
               then content @ ''Reject reason: '' @ str_of (reason t)
               else content))
         else if phase = MARK then
           (''[helpdesk approved]'' @ submitter t @ '''s request to '' @ title t
              @ '' was marked '' @ status t,
            content)
         else
           (''[helpdesk]'' @ submitter t @ ''  '' @ phase_value phase @ ''ed '' @ title t,
            content))"

text \<open>Lines 182 to 222 of \<^verbatim>\<open>send\<close>: the card that is posted.\<close>

definition lark_card :: "TicketPhase \<Rightarrow> ticket \<Rightarrow> card" where
  "lark_card phase t =
     (case lark_render phase t of
        (ttl, content) \<Rightarrow>
          (let msg = \<lparr>wide_screen_mode = True,
                      elements = [Markdown content],
                      header_title_content = ttl,
                      header_title_tag = ''plain_text''\<rparr>
           in if phase = REQUEST \<and> \<not> is_auto_approved t then
                msg\<lparr>elements := elements msg @
                  [Action
                    [\<lparr>btn_tag = ''button'', btn_text_tag = ''plain_text'',
                      btn_text_content = ''Approve'', btn_type = ''primary'',
                      btn_url = web_url t @ ''/approve''\<rparr>,
                     \<lparr>btn_tag = ''button'', btn_text_tag = ''plain_text'',
                      btn_text_content = ''Reject'', btn_type = ''danger'',
                      btn_url = web_url t @ ''/reject''\<rparr>]]\<rparr>
              else msg))"

text \<open>
  The last lines of both \<^verbatim>\<open>send\<close> methods below:
  \<^verbatim>\<open>if r.status_code == 200 and r.json()["StatusCode"] == 0: return\<close>, \<^verbatim>\<open>else: report()\<close>.
  The body is read only when the status is 200.
\<close>

definition check_response :: "response \<Rightarrow> world \<Rightarrow> (error + unit) \<times> world" where
  "check_response r w =
     (if status_code r = 200 then
        (case json r of
           Inl e \<Rightarrow> (Inl e, w)
         | Inr obj \<Rightarrow>
             (case getitem obj ''StatusCode'' of
                Inl e \<Rightarrow> (Inl e, w)
              | Inr v \<Rightarrow> if eq_zero v then (Inr (), w) else report w))
      else report w)"

definition lark_send ::
  "config \<Rightarrow> collab \<Rightarrow> TicketPhase \<Rightarrow> ticket \<Rightarrow> world \<Rightarrow> (error + unit) \<times> world" where
  "lark_send cfg ext phase t w =
     (case LARK_WEBHOOK_URL cfg of
        None \<Rightarrow> (Inr (), w)
      | Some url \<Rightarrow>
          if url = [] then (Inr (), w)
          else (case post ext \<lparr>req_url = url,
                                req_payload = JsonCard ''interactive'' (lark_card phase t),
                                req_timeout = None\<rparr> w of
                  (Inl e, w1) \<Rightarrow> (Inl e, w1)
                | (Inr r, w1) \<Rightarrow> check_response r w1))"

section \<open>\<^verbatim>\<open>WebhookEventNotification\<close>\<close>

text \<open>
  One round of the loop over \<^verbatim>\<open>enumerate(nodes)\<close>: the pair
  \<open>(next_node, notify_type)\<close> is overwritten at every node whose name is the current one.
\<close>

definition scan_step ::
  "node list \<Rightarrow> string option \<Rightarrow> string option \<times> string option \<Rightarrow> nat
     \<Rightarrow> string option \<times> string option" where
  "scan_step ns cur acc index =
     (if cur = name (ns ! index) then
        (if index \<noteq> length ns - 1 then name (ns ! (index + 1)) else Some [],
         node_type (ns ! index))
      else acc)"

definition event_render :: "TicketPhase \<Rightarrow> ticket \<Rightarrow> error + NotifyMessage" where
  "event_render phase t =
     (case nodes (annotation t) of
        None \<Rightarrow> Inl TypeError
      | Some ns \<Rightarrow>
          (case foldl (scan_step ns (current_node (annotation t))) (Some [], Some [])
                  [0..<length ns] of
             (next_node, notify_type) \<Rightarrow>
               Inr \<lparr>nm_phase = phase_value phase,
                    nm_title = title t,
                    nm_ticket_url = web_url t,
                    nm_status = status t,
                    nm_is_approved = or_False (is_approved t),
                    nm_submitter = submitter t,
                    nm_params = params t,
                    nm_request_time = created_at t,
                    nm_reason = (case reason t of None \<Rightarrow> [] | Some r \<Rightarrow> r),
                    nm_approval_flow = policy (annotation t),
                    nm_current_node = current_node (annotation t),
                    nm_approvers = approvers (annotation t),
                    nm_next_node = next_node,
                    nm_approval_log = approval_log (annotation t),
                    nm_notify_type = notify_type\<rparr>))"

definition event_send ::
  "config \<Rightarrow> collab \<Rightarrow> TicketPhase \<Rightarrow> ticket \<Rightarrow> world \<Rightarrow> (error + unit) \<times> world" where
  "event_send cfg ext phase t w =
     (case WEBHOOK_EVENT_URL cfg of
        None \<Rightarrow> (Inr (), w)
      | Some url \<Rightarrow>
          if url = [] then (Inr (), w)
          else (case event_render phase t of
                  Inl e \<Rightarrow> (Inl e, w)
                | Inr message \<Rightarrow>
                    (case post ext \<lparr>req_url = url, req_payload = DataEvent message,
                                     req_timeout = None\<rparr> w of
                       (Inl e, w1) \<Rightarrow> (Inl e, w1)
                     | (Inr r, w1) \<Rightarrow> check_response r w1)))"


section \<open>Observers used in the statements\<close>

text \<open>The concatenated texts of a list of elements, an absent text counting as empty.\<close>

definition texts :: "element list \<Rightarrow> string" where
  "texts ps = concat (map (\<lambda>p. case etext p of None \<Rightarrow> [] | Some s \<Rightarrow> s) ps)"

text \<open>The action buttons of a card, in order.\<close>

definition buttons :: "card \<Rightarrow> button list" where
  "buttons c = concat (map (\<lambda>el. case el of Action bs \<Rightarrow> bs | Markdown s \<Rightarrow> []) (elements c))"

text \<open>
  The recipient list in the spec's words: the admin address, each cc mapped to an e-mail
  address, the policy approvers, the address of each \<^verbatim>\<open>approver\<close> rule action, and the
  submitter's address in the approval and mark phases only.
\<close>

definition recipients ::
  "config \<Rightarrow> TicketPhase \<Rightarrow> ticket \<Rightarrow> string \<Rightarrow> string list \<Rightarrow> string option list" where
  "recipients cfg phase t apprs acts =
     ADMIN_EMAIL_ADDRS cfg # map (get_user_email cfg) (ccs t)
       @ map Some (split CHR '','' apprs)
       @ map (get_user_email cfg) acts
       @ (if phase = APPROVAL \<or> phase = MARK then [get_user_email cfg (submitter t)] else [])"

text \<open>
  A response that the chat-card and event channels treat as a failed delivery to report:
  a status other than 200, or a body whose \<^verbatim>\<open>StatusCode\<close> is not zero.
\<close>

definition reported_failure :: "response \<Rightarrow> bool" where
  "reported_failure r =
     (status_code r \<noteq> 200 \<or>
      (case json r of
         Inl e \<Rightarrow> False
       | Inr obj \<Rightarrow>
           (case getitem obj ''StatusCode'' of Inl e \<Rightarrow> False | Inr v \<Rightarrow> \<not> eq_zero v)))"

section \<open>A concrete deployment\<close>

definition demo_annotation :: annotation where
  "demo_annotation =
     \<lparr>current_node = Some ''B'',
      nodes = Some [\<lparr>name = Some ''A'', node_type = Some ''cc''\<rparr>,
                    \<lparr>name = Some ''B'', node_type = Some ''approval''\<rparr>,
                    \<lparr>name = Some ''C'', node_type = Some ''final''\<rparr>],
      policy = PStr ''default'',
      approvers = PStr ''alice'',
      approval_log = PList [],
      ann_reason = Some ''disk full''\<rparr>"

definition demo_ticket :: ticket where
  "demo_ticket =
     \<lparr>title = ''restart web1'',
      submitter = ''bob'',
      ccs = [''carol'', ''ghost''],
      reason = Some ''disk full'',
      status = ''pending'',
      created_at = ''2024-01-01 08:00:00'',
      confirmed_by = ''alice'',
      is_approved = None,
      is_auto_approved = False,
      web_url = ''http://hd/ticket/1'',
      params = [(''host'', ''web1'')],
      color = ''#28a745'',
      annotation = demo_annotation\<rparr>"

definition demo_config :: config where
  "demo_config =
     \<lparr>NOTIFICATION_TITLE_PREFIX = ''[hd] '',
      WEBHOOK_URL = Some ''http://hook/generic'',
      LARK_WEBHOOK_URL = Some ''http://hook/lark'',
      WEBHOOK_EVENT_URL = Some ''http://hook/event'',
      ADMIN_EMAIL_ADDRS = Some ''admin@example.com'',
      FROM_EMAIL_ADDR = ''hd@example.com'',
      SMTP_SERVER = ''smtp.example.com'',
      SMTP_SERVER_PORT = 25,
      SMTP_SSL = False,
      SMTP_CREDENTIALS = Some ''hd:secret'',
      get_user_email = (\<lambda>u. if u = ''ghost'' then None else Some (u @ ''@example.com''))\<rparr>"

definition demo_fromstring :: "string \<Rightarrow> error + element" where
  "demo_fromstring s =
     (if s = ''<m><title>T</title><content>C</content></m>'' then
        Inr (Element ''m'' None [Element ''title'' (Some ''T'') [], Element ''content'' (Some ''C'') []])
      else if s = ''<m><content>hi</content></m>'' then
        Inr (Element ''m'' None [Element ''content'' (Some ''hi'') []])
      else Inl ParseError)"

definition demo_collab :: collab where
  "demo_collab =
     \<lparr>template_render = (\<lambda>n t. Inr '' <m><title>T</title><content>C</content></m>\<newline>''),
      ET_fromstring = demo_fromstring,
      get_flow_policy = (\<lambda>t. Inr (FlowPolicy (\<lambda>n. Inr ''alice@example.com,dave@example.com''))),
      get_rule_actions = (\<lambda>t k. Inr [''erin'']),
      smtp_open = (\<lambda>ssl host port. None),
      smtp_login = (\<lambda>u p. None),
      smtp_send_message = (\<lambda>m. None),
      smtp_quit = None,
      email_build = (\<lambda>m. None),
      requests_post = (\<lambda>rq. Inr \<lparr>status_code = 200, json = Inr (PDict [(''StatusCode'', PInt 0)])\<rparr>)\<rparr>"

definition world0 :: world where
  "world0 = \<lparr>http_log = [], reports = 0, smtp_log = []\<rparr>"


section \<open>The template renderer\<close>

lemma join_text_texts:
  "join_text ps = (if \<forall>p\<in>set ps. etext p \<noteq> None then Inr (texts ps) else Inl TypeError)"
  by (induction ps) (auto simp: texts_def split: option.splits)

lemma texts_empty_iff:
  "(\<forall>p\<in>set ps. etext p \<noteq> None) \<Longrightarrow> texts ps = [] \<longleftrightarrow> (\<forall>p\<in>set ps. etext p = Some [])"
  by (induction ps) (auto simp: texts_def split: option.splits)

text \<open>
  C1, as the code has it. \<open>render\<close> fails when the templated text does not parse, with
  the parser's error, and when a matched title or content element carries no text.
  Otherwise it returns the concatenated texts of the root's title children and of its
  content children; the title (the content) is then empty exactly when every matched
  element has an empty text. With no title element (no content element) at all,
  \<open>render\<close> does not fail: it returns the empty string in that place.
\<close>

theorem render_outcome:
  assumes "template_render ext (meth @ ''/'' @ phase_value phase @ ''.j2'') t = Inr message"
  shows "(\<forall>e. ET_fromstring ext (strip message) = Inl e \<longrightarrow> render ext meth phase t = Inl e) \<and>
         (\<forall>tree. ET_fromstring ext (strip message) = Inr tree \<longrightarrow>
            render ext meth phase t =
              (if \<forall>p\<in>set (findall tree ''title'' @ findall tree ''content''). etext p \<noteq> None
               then Inr (texts (findall tree ''title''), texts (findall tree ''content''))
               else Inl TypeError) \<and>
            (\<forall>ttl body. render ext meth phase t = Inr (ttl, body) \<longrightarrow>
               (ttl = [] \<longleftrightarrow> (\<forall>p\<in>set (findall tree ''title''). etext p = Some [])) \<and>
               (body = [] \<longleftrightarrow> (\<forall>p\<in>set (findall tree ''content''). etext p = Some []))) \<and>
            (findall tree ''title'' = [] \<and> (\<forall>p\<in>set (findall tree ''content''). etext p \<noteq> None) \<longrightarrow>
               render ext meth phase t = Inr ([], texts (findall tree ''content''))))"
proof (intro conjI allI impI)
  fix e assume "ET_fromstring ext (strip message) = Inl e"
  with assms show "render ext meth phase t = Inl e"
    by (simp add: render_def)
next
  fix tree assume p: "ET_fromstring ext (strip message) = Inr tree"
  with assms show r: "render ext meth phase t =
      (if \<forall>p\<in>set (findall tree ''title'' @ findall tree ''content''). etext p \<noteq> None
       then Inr (texts (findall tree ''title''), texts (findall tree ''content''))
       else Inl TypeError)"
    by (auto simp: render_def join_text_texts)
  {
    fix ttl body assume ok: "render ext meth phase t = Inr (ttl, body)"
    with r have all: "\<forall>p\<in>set (findall tree ''title'' @ findall tree ''content''). etext p \<noteq> None"
      by (auto split: if_splits)
    with r ok have eq: "ttl = texts (findall tree ''title'')" "body = texts (findall tree ''content'')"
      by (auto split: if_splits)
    from all eq show "ttl = [] \<longleftrightarrow> (\<forall>p\<in>set (findall tree ''title''). etext p = Some [])"
      using texts_empty_iff [of "findall tree ''title''"] by auto
    from all eq show "body = [] \<longleftrightarrow> (\<forall>p\<in>set (findall tree ''content''). etext p = Some [])"
      using texts_empty_iff [of "findall tree ''content''"] by auto
  }
  {
    assume "findall tree ''title'' = [] \<and> (\<forall>p\<in>set (findall tree ''content''). etext p \<noteq> None)"
    with r show "render ext meth phase t = Inr ([], texts (findall tree ''content''))"
      by (simp add: texts_def)
  }
qed

lemma strip_demo_template:
  "strip '' <m><title>T</title><content>C</content></m>\<newline>'' = ''<m><title>T</title><content>C</content></m>''"
  by (simp add: strip_def py_isspace_def)

theorem render_outcome_witness:
  "render demo_collab ''mail'' REQUEST demo_ticket = Inr (''T'', ''C'') \<and>
   render (demo_collab\<lparr>template_render := \<lambda>n t. Inr ''<m><title>''\<rparr>) ''mail'' REQUEST demo_ticket
     = Inl ParseError"
proof -
  have a: "template_render demo_collab (''mail'' @ ''/'' @ phase_value REQUEST @ ''.j2'') demo_ticket
             = Inr '' <m><title>T</title><content>C</content></m>\<newline>''"
    by (simp add: demo_collab_def)
  have b: "template_render (demo_collab\<lparr>template_render := \<lambda>n t. Inr ''<m><title>''\<rparr>)
             (''mail'' @ ''/'' @ phase_value REQUEST @ ''.j2'') demo_ticket = Inr ''<m><title>''"
    by simp
  have pa: "ET_fromstring demo_collab (strip '' <m><title>T</title><content>C</content></m>\<newline>'')
      = Inr (Element ''m'' None [Element ''title'' (Some ''T'') [], Element ''content'' (Some ''C'') []])"
    by (simp only: strip_demo_template) (simp add: demo_collab_def demo_fromstring_def)
  have pb: "ET_fromstring (demo_collab\<lparr>template_render := \<lambda>n t. Inr ''<m><title>''\<rparr>) (strip ''<m><title>'')
      = Inl ParseError"
    by (simp add: demo_collab_def demo_fromstring_def strip_def py_isspace_def)
  have ft: "findall (Element ''m'' None [Element ''title'' (Some ''T'') [], Element ''content'' (Some ''C'') []])
              ''title'' = [Element ''title'' (Some ''T'') []]"
    by (simp add: findall_def)
  have fc: "findall (Element ''m'' None [Element ''title'' (Some ''T'') [], Element ''content'' (Some ''C'') []])
              ''content'' = [Element ''content'' (Some ''C'') []]"
    by (simp add: findall_def)
  from render_outcome [OF a] pa
  have "render demo_collab ''mail'' REQUEST demo_ticket = Inr (''T'', ''C'')"
    by (simp add: ft fc texts_def)
  moreover from render_outcome [OF b] pb
  have "render (demo_collab\<lparr>template_render := \<lambda>n t. Inr ''<m><title>''\<rparr>) ''mail'' REQUEST demo_ticket
          = Inl ParseError"
    by blast
  ultimately show ?thesis by simp
qed

lemma render_strips_latin1_space:
  "render (demo_collab\<lparr>template_render := \<lambda>n t.
             Inr (CHR 0xA0 # ''<m><title>T</title><content>C</content></m>'' @ [CHR 0x85])\<rparr>)
      ''mail'' REQUEST demo_ticket = Inr (''T'', ''C'')"
  by (simp add: render_def demo_collab_def demo_fromstring_def strip_def py_isspace_def findall_def)

theorem render_zero_title_counterexample:
  "render (demo_collab\<lparr>template_render := \<lambda>n t. Inr ''<m><content>hi</content></m>''\<rparr>)
      ''mail'' REQUEST demo_ticket = Inr ('''', ''hi'')"
  by (simp add: render_def demo_collab_def demo_fromstring_def strip_def py_isspace_def findall_def)


section \<open>Mail: the recipients\<close>

lemma truthy_addrs_filter:
  "truthy_addrs xs = filter (\<lambda>a. a \<noteq> []) (map (\<lambda>x. case x of None \<Rightarrow> [] | Some a \<Rightarrow> a) xs)"
  by (induction xs rule: truthy_addrs.induct) auto

lemma split_not_Nil: "split c s \<noteq> []"
  by (induction s) (auto split: list.splits)

lemma split_append_sep: "split c (a @ c # b) = split c a @ split c b"
proof (induction a)
  case Nil
  show ?case by simp
next
  case (Cons x a)
  obtain s ss where s: "split c a = s # ss"
    using split_not_Nil [of c a] by (cases "split c a") auto
  with Cons show ?case by simp
qed

lemma split_join:
  "xs \<noteq> [] \<Longrightarrow> split c (join [c] xs) = concat (map (split c) xs)"
proof (induction "[c]" xs rule: join.induct)
  case 1
  then show ?case by simp
next
  case (2 x)
  show ?case by simp
next
  case (3 x y ys)
  then show ?case by (simp add: split_append_sep)
qed

lemma phase_approval_or_mark:
  "phase_value phase \<in> set [''approval'', ''mark''] \<longleftrightarrow> phase = APPROVAL \<or> phase = MARK"
  by (cases phase) (auto simp: APPROVAL_def MARK_def)

text \<open>
  C8, as the code has it. With the policy approvers and the approver rule actions at
  hand, \<open>get_mail_addrs\<close> returns the comma-join of the recipient list of the spec
  (admin address, mapped ccs, policy approvers, mapped rule-action approvers, and the
  mapped submitter exactly in the approval and mark phases) with every entry that is
  \<open>None\<close> or empty dropped and the others kept whole and in order, so no joined entry
  is empty. When nothing is kept the result is the empty string. Otherwise the returned
  string, split at its commas, has an empty part exactly when some kept entry has one of
  its own: an entry is joined as it is, commas included.
\<close>

theorem get_mail_addrs_recipients:
  assumes "get_approvers ext t = Inr apprs"
    and "get_rule_actions ext t ''approver'' = Inr acts"
  shows "(let kept = filter (\<lambda>a. a \<noteq> [])
                      (map (\<lambda>x. case x of None \<Rightarrow> [] | Some a \<Rightarrow> a)
                         (recipients cfg phase t apprs acts))
          in get_mail_addrs cfg ext phase t = Inr (join '','' kept) \<and>
             [] \<notin> set kept \<and>
             (kept = [] \<longrightarrow> get_mail_addrs cfg ext phase t = Inr []) \<and>
             (kept \<noteq> [] \<longrightarrow>
                ([] \<in> set (split CHR '','' (join '','' kept))
                   \<longleftrightarrow> (\<exists>a\<in>set kept. [] \<in> set (split CHR '','' a)))))"
proof -
  define kept where "kept = filter (\<lambda>a. a \<noteq> [])
     (map (\<lambda>x. case x of None \<Rightarrow> [] | Some a \<Rightarrow> a) (recipients cfg phase t apprs acts))"
  have "get_mail_addrs cfg ext phase t = Inr (join '','' (truthy_addrs (recipients cfg phase t apprs acts)))"
    using assms phase_approval_or_mark [of phase]
    by (simp add: get_mail_addrs_def recipients_def Let_def del: set_simps)
  then have 1: "get_mail_addrs cfg ext phase t = Inr (join '','' kept)"
    by (simp add: truthy_addrs_filter kept_def)
  have 2: "[] \<notin> set kept"
    by (simp add: kept_def)
  have 3: "get_mail_addrs cfg ext phase t = Inr []" if "kept = []"
    using 1 that by simp
  have 4: "[] \<in> set (split CHR '','' (join '','' kept))
             \<longleftrightarrow> (\<exists>a\<in>set kept. [] \<in> set (split CHR '','' a))" if "kept \<noteq> []"
    using that by (simp add: split_join)
  from 1 2 3 4 show ?thesis
    unfolding kept_def [symmetric] Let_def by blast
qed

theorem get_mail_addrs_recipients_witness:
  "get_mail_addrs demo_config
      (demo_collab\<lparr>get_flow_policy :=
         \<lambda>t. Inr (FlowPolicy (\<lambda>n. Inr ''alice@example.com,,dave@example.com''))\<rparr>)
      APPROVAL demo_ticket =
     Inr ''admin@example.com,carol@example.com,alice@example.com,dave@example.com,erin@example.com,bob@example.com'' \<and>
   [] \<notin> set (split CHR '',''
     ''admin@example.com,carol@example.com,alice@example.com,dave@example.com,erin@example.com,bob@example.com'') \<and>
   get_mail_addrs demo_config demo_collab REQUEST demo_ticket =
     Inr ''admin@example.com,carol@example.com,alice@example.com,dave@example.com,erin@example.com'' \<and>
   get_mail_addrs (demo_config\<lparr>ADMIN_EMAIL_ADDRS := None\<rparr>)
      (demo_collab\<lparr>get_flow_policy := \<lambda>t. Inr (FlowPolicy (\<lambda>n. Inr [])),
                    get_rule_actions := \<lambda>t k. Inr []\<rparr>)
      REQUEST (demo_ticket\<lparr>ccs := [''ghost'']\<rparr>) = Inr []"
proof -
  let ?ext1 = "demo_collab\<lparr>get_flow_policy :=
                 \<lambda>t. Inr (FlowPolicy (\<lambda>n. Inr ''alice@example.com,,dave@example.com''))\<rparr>"
  let ?ext0 = "demo_collab\<lparr>get_flow_policy := \<lambda>t. Inr (FlowPolicy (\<lambda>n. Inr [])),
                             get_rule_actions := \<lambda>t k. Inr []\<rparr>"
  let ?out = "''admin@example.com,carol@example.com,alice@example.com,dave@example.com,erin@example.com,bob@example.com''"
  let ?kept = "[''admin@example.com'', ''carol@example.com'', ''alice@example.com'',
                ''dave@example.com'', ''erin@example.com'', ''bob@example.com'']"
  have a1: "get_approvers ?ext1 demo_ticket = Inr ''alice@example.com,,dave@example.com''"
    by (simp add: get_approvers_def)
  have b1: "get_rule_actions ?ext1 demo_ticket ''approver'' = Inr [''erin'']"
    by (simp add: demo_collab_def)
  have s1: "split CHR '','' ''alice@example.com,,dave@example.com'' =
              [''alice@example.com'', [], ''dave@example.com'']"
    by simp
  have a: "get_approvers demo_collab demo_ticket = Inr ''alice@example.com,dave@example.com''"
    by (simp add: get_approvers_def demo_collab_def)
  have b: "get_rule_actions demo_collab demo_ticket ''approver'' = Inr [''erin'']"
    by (simp add: demo_collab_def)
  have s: "split CHR '','' ''alice@example.com,dave@example.com'' = [''alice@example.com'', ''dave@example.com'']"
    by simp
  have a0: "get_approvers ?ext0 (demo_ticket\<lparr>ccs := [''ghost'']\<rparr>) = Inr []"
    by (simp add: get_approvers_def)
  have b0: "get_rule_actions ?ext0 (demo_ticket\<lparr>ccs := [''ghost'']\<rparr>) ''approver'' = Inr []"
    by simp
  have ne: "REQUEST \<noteq> APPROVAL" "REQUEST \<noteq> MARK" "APPROVAL \<noteq> MARK"
    by (simp_all add: REQUEST_def APPROVAL_def MARK_def)
  have k1: "filter (\<lambda>a. a \<noteq> [])
              (map (\<lambda>x. case x of None \<Rightarrow> [] | Some a \<Rightarrow> a)
                 (recipients demo_config APPROVAL demo_ticket ''alice@example.com,,dave@example.com'' [''erin'']))
            = ?kept"
    by (simp add: recipients_def s1 demo_config_def demo_ticket_def)
  have j1: "join '','' ?kept = ?out"
    by simp
  have p1: "\<not> (\<exists>a\<in>set ?kept. [] \<in> set (split CHR '','' a))"
    by simp
  from get_mail_addrs_recipients [OF a1 b1, of demo_config APPROVAL]
  have 1: "get_mail_addrs demo_config ?ext1 APPROVAL demo_ticket = Inr ?out"
    and 2: "[] \<notin> set (split CHR '','' ?out)"
    unfolding Let_def k1 j1 using p1 by blast+
  from get_mail_addrs_recipients [OF a b, of demo_config REQUEST]
  have 3: "get_mail_addrs demo_config demo_collab REQUEST demo_ticket =
     Inr ''admin@example.com,carol@example.com,alice@example.com,dave@example.com,erin@example.com''"
    by (simp add: Let_def recipients_def s ne demo_config_def demo_ticket_def)
  from get_mail_addrs_recipients [OF a0 b0, of "demo_config\<lparr>ADMIN_EMAIL_ADDRS := None\<rparr>" REQUEST]
  have 4: "get_mail_addrs (demo_config\<lparr>ADMIN_EMAIL_ADDRS := None\<rparr>) ?ext0 REQUEST
             (demo_ticket\<lparr>ccs := [''ghost'']\<rparr>) = Inr []"
    by (simp add: Let_def recipients_def ne demo_config_def)
  from 1 2 3 4 show ?thesis by simp
qed

theorem get_mail_addrs_empty_segment_counterexample:
  "get_mail_addrs (demo_config\<lparr>ADMIN_EMAIL_ADDRS := Some ''a@x,b@x,''\<rparr>) demo_collab REQUEST demo_ticket =
     Inr ''a@x,b@x,,carol@example.com,alice@example.com,dave@example.com,erin@example.com'' \<and>
   [] \<in> set (split CHR '',''
     ''a@x,b@x,,carol@example.com,alice@example.com,dave@example.com,erin@example.com'')"
proof -
  have s: "split CHR '','' ''alice@example.com,dave@example.com'' = [''alice@example.com'', ''dave@example.com'']"
    by simp
  have "get_mail_addrs (demo_config\<lparr>ADMIN_EMAIL_ADDRS := Some ''a@x,b@x,''\<rparr>) demo_collab REQUEST demo_ticket =
     Inr ''a@x,b@x,,carol@example.com,alice@example.com,dave@example.com,erin@example.com''"
    by (simp add: get_mail_addrs_def get_approvers_def demo_collab_def s Let_def
        demo_config_def demo_ticket_def REQUEST_def)
  moreover have "[] \<in> set (split CHR '',''
     ''a@x,b@x,,carol@example.com,alice@example.com,dave@example.com,erin@example.com'')"
    by simp
  ultimately show ?thesis by simp
qed

section \<open>Mail: the SMTP session\<close>

lemma send_and_quit_log:
  "smtp_log (snd (send_and_quit ext msg w)) = smtp_log w @ [SendMessage msg, Quit]"
  by (simp add: send_and_quit_def smtp_call_def Let_def split: option.splits)

lemma send_and_quit_result:
  "fst (send_and_quit ext msg w) =
     (case smtp_quit ext of
        Some e \<Rightarrow> Inl e
      | None \<Rightarrow> (case smtp_send_message ext msg of Some e \<Rightarrow> Inl e | None \<Rightarrow> Inr ()))"
  by (simp add: send_and_quit_def Let_def split: option.splits)

lemma login_step_log:
  "Quit \<notin> set (smtp_log w) \<Longrightarrow> Quit \<notin> set (smtp_log (snd (login_step cfg ext w)))"
  by (auto simp: login_step_def smtp_call_def split: option.splits list.splits)

text \<open>
  What \<open>send\<close> does hold to: once the message is handed to the session, the session is
  closed, whether the delivery succeeds or raises; and a run that ends before that point
  never closes it.
\<close>

lemma mail_send_quit_iff_sent:
  assumes "smtp_log w = []"
  shows "Quit \<in> set (smtp_log (snd (mail_send cfg ext phase t w)))
           \<longleftrightarrow> (\<exists>m. SendMessage m \<in> set (smtp_log (snd (mail_send cfg ext phase t w))))"
proof -
  let ?w0 = "smtp_call (Connect (SMTP_SSL cfg) (SMTP_SERVER cfg) (SMTP_SERVER_PORT cfg)) w"
  have q: "Quit \<notin> set (smtp_log (snd (login_step cfg ext ?w0)))"
    using assms by (intro login_step_log) (simp add: smtp_call_def)
  have s: "SendMessage m \<notin> set (smtp_log (snd (login_step cfg ext ?w0)))" for m
    using assms by (auto simp: login_step_def smtp_call_def split: option.splits list.splits)
  show ?thesis
    using assms q s
    by (auto simp: mail_send_def Let_def send_and_quit_log
        split: sum.splits prod.splits option.splits)
qed

text \<open>
  C2 at a failing input: credentials are configured and the server refuses the login.
  \<open>send\<close> raises the authentication error with the session opened and logged in to,
  and never closed.
\<close>

theorem mail_send_login_refused_session_left_open:
  "fst (mail_send demo_config (demo_collab\<lparr>smtp_login := \<lambda>u p. Some SMTPAuthenticationError\<rparr>)
          REQUEST demo_ticket world0) = Inl SMTPAuthenticationError \<and>
   smtp_log (snd (mail_send demo_config (demo_collab\<lparr>smtp_login := \<lambda>u p. Some SMTPAuthenticationError\<rparr>)
          REQUEST demo_ticket world0)) = [Connect False ''smtp.example.com'' 25, Login ''hd'' ''secret'']"
proof -
  let ?ext = "demo_collab\<lparr>smtp_login := \<lambda>u p. Some SMTPAuthenticationError\<rparr>"
  have a: "\<exists>addrs. get_mail_addrs demo_config ?ext REQUEST demo_ticket = Inr addrs"
    by (simp add: get_mail_addrs_def get_approvers_def demo_collab_def Let_def)
  have r: "render ?ext ''mail'' REQUEST demo_ticket = Inr (''T'', ''C'')"
    by (simp add: render_def demo_collab_def demo_fromstring_def strip_def py_isspace_def findall_def)
  have l: "login_step demo_config ?ext (smtp_call (Connect False ''smtp.example.com'' 25) world0)
             = (Inl SMTPAuthenticationError,
                world0\<lparr>smtp_log := [Connect False ''smtp.example.com'' 25, Login ''hd'' ''secret'']\<rparr>)"
    by (simp add: login_step_def demo_config_def smtp_call_def world0_def)
  have o: "smtp_open demo_collab False ''smtp.example.com'' 25 = None"
    by (simp add: demo_collab_def)
  have c: "SMTP_SSL demo_config = False" "SMTP_SERVER demo_config = ''smtp.example.com''"
    "SMTP_SERVER_PORT demo_config = 25"
    by (simp_all add: demo_config_def)
  from a obtain addrs where a': "get_mail_addrs demo_config ?ext REQUEST demo_ticket = Inr addrs" ..
  show ?thesis
    by (simp add: mail_send_def a' r c o l)
qed


section \<open>Webhook channels: unconfigured destination\<close>

text \<open>
  C4. With its destination URL unset or empty, each webhook channel's \<open>send\<close> returns
  at once and successfully: whatever the template engine, the parser and the network
  would do, nothing is rendered, no call is made and no report is filed, so the world is
  left as it was.
\<close>

theorem unconfigured_url_send_noop:
  "(WEBHOOK_URL cfg = None \<or> WEBHOOK_URL cfg = Some []
      \<longrightarrow> webhook_send cfg ext phase t w = (Inr (), w)) \<and>
   (LARK_WEBHOOK_URL cfg = None \<or> LARK_WEBHOOK_URL cfg = Some []
      \<longrightarrow> lark_send cfg ext phase t w = (Inr (), w)) \<and>
   (WEBHOOK_EVENT_URL cfg = None \<or> WEBHOOK_EVENT_URL cfg = Some []
      \<longrightarrow> event_send cfg ext phase t w = (Inr (), w))"
  by (auto simp: webhook_send_def lark_send_def event_send_def)

theorem unconfigured_url_send_noop_witness:
  "webhook_send (demo_config\<lparr>WEBHOOK_URL := None, LARK_WEBHOOK_URL := Some [], WEBHOOK_EVENT_URL := None\<rparr>)
      (demo_collab\<lparr>template_render := \<lambda>n t. Inl TemplateNotFound, requests_post := \<lambda>rq. Inl ConnectionError\<rparr>)
      REQUEST demo_ticket world0 = (Inr (), world0) \<and>
   lark_send (demo_config\<lparr>WEBHOOK_URL := None, LARK_WEBHOOK_URL := Some [], WEBHOOK_EVENT_URL := None\<rparr>)
      (demo_collab\<lparr>template_render := \<lambda>n t. Inl TemplateNotFound, requests_post := \<lambda>rq. Inl ConnectionError\<rparr>)
      REQUEST demo_ticket world0 = (Inr (), world0) \<and>
   event_send (demo_config\<lparr>WEBHOOK_URL := None, LARK_WEBHOOK_URL := Some [], WEBHOOK_EVENT_URL := None\<rparr>)
      (demo_collab\<lparr>template_render := \<lambda>n t. Inl TemplateNotFound, requests_post := \<lambda>rq. Inl ConnectionError\<rparr>)
      REQUEST demo_ticket world0 = (Inr (), world0)"
  using unconfigured_url_send_noop
    [of "demo_config\<lparr>WEBHOOK_URL := None, LARK_WEBHOOK_URL := Some [], WEBHOOK_EVENT_URL := None\<rparr>"
        "demo_collab\<lparr>template_render := \<lambda>n t. Inl TemplateNotFound, requests_post := \<lambda>rq. Inl ConnectionError\<rparr>"
        REQUEST demo_ticket world0]
  by simp

section \<open>Chat card and event webhook: failed deliveries\<close>

lemma check_response_reported:
  "reported_failure r \<Longrightarrow> check_response r w = (Inr (), w\<lparr>reports := Suc (reports w)\<rparr>)"
  by (auto simp: reported_failure_def check_response_def report_def split: sum.splits)

lemma check_response_body:
  assumes "status_code r = 200"
  shows "json r = Inl e \<Longrightarrow> check_response r w = (Inl e, w)"
    and "json r = Inr (PDict kvs) \<Longrightarrow> map_of kvs ''StatusCode'' = None
           \<Longrightarrow> check_response r w = (Inl KeyError, w)"
    and "json r = Inr obj \<Longrightarrow> \<forall>kvs. obj \<noteq> PDict kvs \<Longrightarrow> check_response r w = (Inl TypeError, w)"
    and "json r = Inr (PDict kvs) \<Longrightarrow> map_of kvs ''StatusCode'' = Some v \<Longrightarrow> eq_zero v
           \<Longrightarrow> check_response r w = (Inr (), w)"
  using assms
  by (cases obj; simp add: check_response_def getitem_def)+

lemma lark_send_post:
  assumes "LARK_WEBHOOK_URL cfg = Some url" and "url \<noteq> []"
  shows "lark_send cfg ext phase t w =
           (case requests_post ext \<lparr>req_url = url,
                                    req_payload = JsonCard ''interactive'' (lark_card phase t),
                                    req_timeout = None\<rparr> of
              Inl e \<Rightarrow> (Inl e, w\<lparr>http_log := http_log w @
                          [\<lparr>req_url = url, req_payload = JsonCard ''interactive'' (lark_card phase t),
                            req_timeout = None\<rparr>]\<rparr>)
            | Inr r \<Rightarrow> check_response r (w\<lparr>http_log := http_log w @
                          [\<lparr>req_url = url, req_payload = JsonCard ''interactive'' (lark_card phase t),
                            req_timeout = None\<rparr>]\<rparr>))"
  using assms by (simp add: lark_send_def post_def split: sum.splits)

lemma event_send_post:
  assumes "WEBHOOK_EVENT_URL cfg = Some url" and "url \<noteq> []"
    and "event_render phase t = Inr message"
  shows "event_send cfg ext phase t w =
           (case requests_post ext \<lparr>req_url = url, req_payload = DataEvent message,
                                    req_timeout = None\<rparr> of
              Inl e \<Rightarrow> (Inl e, w\<lparr>http_log := http_log w @
                          [\<lparr>req_url = url, req_payload = DataEvent message, req_timeout = None\<rparr>]\<rparr>)
            | Inr r \<Rightarrow> check_response r (w\<lparr>http_log := http_log w @
                          [\<lparr>req_url = url, req_payload = DataEvent message, req_timeout = None\<rparr>]\<rparr>))"
  using assms by (simp add: event_send_def post_def split: sum.splits)

lemma event_render_total:
  "nodes (annotation t) = Some ns \<Longrightarrow> \<exists>m. event_render phase t = Inr m"
  by (simp add: event_render_def split: prod.splits)

text \<open>
  C3, as the code has it. With a URL configured, \<open>send\<close> makes one POST: of the chat
  card, or of the event message that \<open>render\<close> built. When the response is a failed
  delivery (a status other than 200, so every status outside 2xx, or a status 200 whose
  JSON body has a \<^verbatim>\<open>StatusCode\<close> other than zero), \<open>send\<close> returns normally, having
  filed exactly one report. Nothing else is caught: an exception of the POST itself
  propagates, and so does, under status 200, the error of a body that is not JSON, of a
  JSON object without \<^verbatim>\<open>StatusCode\<close>, and of a JSON value that is not an object; none of
  them is reported. Under status 200 with a \<^verbatim>\<open>StatusCode\<close> equal to zero \<open>send\<close>
  returns with no report.
\<close>

theorem best_effort_send_reports_once:
  fixes cfg :: config and ext :: collab and phase :: TicketPhase and t :: ticket and w :: world
    and url :: string and message :: NotifyMessage
  defines "lrq \<equiv> \<lparr>req_url = url, req_payload = JsonCard ''interactive'' (lark_card phase t),
                   req_timeout = None\<rparr>"
    and "erq \<equiv> \<lparr>req_url = url, req_payload = DataEvent message, req_timeout = None\<rparr>"
  shows "(LARK_WEBHOOK_URL cfg = Some url \<and> url \<noteq> [] \<longrightarrow>
            (\<forall>e. requests_post ext lrq = Inl e \<longrightarrow>
               lark_send cfg ext phase t w = (Inl e, w\<lparr>http_log := http_log w @ [lrq]\<rparr>)) \<and>
            (\<forall>r. requests_post ext lrq = Inr r \<longrightarrow>
               (reported_failure r \<longrightarrow>
                  lark_send cfg ext phase t w =
                    (Inr (), w\<lparr>http_log := http_log w @ [lrq], reports := Suc (reports w)\<rparr>)) \<and>
               (status_code r = 200 \<longrightarrow>
                  (\<forall>e. json r = Inl e \<longrightarrow>
                     lark_send cfg ext phase t w = (Inl e, w\<lparr>http_log := http_log w @ [lrq]\<rparr>)) \<and>
                  (\<forall>kvs. json r = Inr (PDict kvs) \<and> map_of kvs ''StatusCode'' = None \<longrightarrow>
                     lark_send cfg ext phase t w = (Inl KeyError, w\<lparr>http_log := http_log w @ [lrq]\<rparr>)) \<and>
                  (\<forall>obj. json r = Inr obj \<and> (\<forall>kvs. obj \<noteq> PDict kvs) \<longrightarrow>
                     lark_send cfg ext phase t w = (Inl TypeError, w\<lparr>http_log := http_log w @ [lrq]\<rparr>)) \<and>
                  (\<forall>kvs v. json r = Inr (PDict kvs) \<and> map_of kvs ''StatusCode'' = Some v \<and> eq_zero v \<longrightarrow>
                     lark_send cfg ext phase t w = (Inr (), w\<lparr>http_log := http_log w @ [lrq]\<rparr>))))) \<and>
         (WEBHOOK_EVENT_URL cfg = Some url \<and> url \<noteq> [] \<and> event_render phase t = Inr message \<longrightarrow>
            (\<forall>e. requests_post ext erq = Inl e \<longrightarrow>
               event_send cfg ext phase t w = (Inl e, w\<lparr>http_log := http_log w @ [erq]\<rparr>)) \<and>
            (\<forall>r. requests_post ext erq = Inr r \<longrightarrow>
               (reported_failure r \<longrightarrow>
                  event_send cfg ext phase t w =
                    (Inr (), w\<lparr>http_log := http_log w @ [erq], reports := Suc (reports w)\<rparr>)) \<and>
               (status_code r = 200 \<longrightarrow>
                  (\<forall>e. json r = Inl e \<longrightarrow>
                     event_send cfg ext phase t w = (Inl e, w\<lparr>http_log := http_log w @ [erq]\<rparr>)) \<and>
                  (\<forall>kvs. json r = Inr (PDict kvs) \<and> map_of kvs ''StatusCode'' = None \<longrightarrow>
                     event_send cfg ext phase t w = (Inl KeyError, w\<lparr>http_log := http_log w @ [erq]\<rparr>)) \<and>
                  (\<forall>obj. json r = Inr obj \<and> (\<forall>kvs. obj \<noteq> PDict kvs) \<longrightarrow>
                     event_send cfg ext phase t w = (Inl TypeError, w\<lparr>http_log := http_log w @ [erq]\<rparr>)) \<and>
                  (\<forall>kvs v. json r = Inr (PDict kvs) \<and> map_of kvs ''StatusCode'' = Some v \<and> eq_zero v \<longrightarrow>
                     event_send cfg ext phase t w = (Inr (), w\<lparr>http_log := http_log w @ [erq]\<rparr>)))))"
proof (intro conjI impI)
  assume u: "LARK_WEBHOOK_URL cfg = Some url \<and> url \<noteq> []"
  then have s: "lark_send cfg ext phase t w =
      (case requests_post ext lrq of
         Inl e \<Rightarrow> (Inl e, w\<lparr>http_log := http_log w @ [lrq]\<rparr>)
       | Inr r \<Rightarrow> check_response r (w\<lparr>http_log := http_log w @ [lrq]\<rparr>))"
    unfolding lrq_def by (simp add: lark_send_post)
  show "\<forall>e. requests_post ext lrq = Inl e \<longrightarrow>
          lark_send cfg ext phase t w = (Inl e, w\<lparr>http_log := http_log w @ [lrq]\<rparr>)"
    by (simp add: s)
  show "\<forall>r. requests_post ext lrq = Inr r \<longrightarrow>
     (reported_failure r \<longrightarrow>
        lark_send cfg ext phase t w =
          (Inr (), w\<lparr>http_log := http_log w @ [lrq], reports := Suc (reports w)\<rparr>)) \<and>
     (status_code r = 200 \<longrightarrow>
        (\<forall>e. json r = Inl e \<longrightarrow>
           lark_send cfg ext phase t w = (Inl e, w\<lparr>http_log := http_log w @ [lrq]\<rparr>)) \<and>
        (\<forall>kvs. json r = Inr (PDict kvs) \<and> map_of kvs ''StatusCode'' = None \<longrightarrow>
           lark_send cfg ext phase t w = (Inl KeyError, w\<lparr>http_log := http_log w @ [lrq]\<rparr>)) \<and>
        (\<forall>obj. json r = Inr obj \<and> (\<forall>kvs. obj \<noteq> PDict kvs) \<longrightarrow>
           lark_send cfg ext phase t w = (Inl TypeError, w\<lparr>http_log := http_log w @ [lrq]\<rparr>)) \<and>
        (\<forall>kvs v. json r = Inr (PDict kvs) \<and> map_of kvs ''StatusCode'' = Some v \<and> eq_zero v \<longrightarrow>
           lark_send cfg ext phase t w = (Inr (), w\<lparr>http_log := http_log w @ [lrq]\<rparr>)))"
    by (auto simp: s check_response_reported check_response_body)
next
  assume u: "WEBHOOK_EVENT_URL cfg = Some url \<and> url \<noteq> [] \<and> event_render phase t = Inr message"
  then have s: "event_send cfg ext phase t w =
      (case requests_post ext erq of
         Inl e \<Rightarrow> (Inl e, w\<lparr>http_log := http_log w @ [erq]\<rparr>)
       | Inr r \<Rightarrow> check_response r (w\<lparr>http_log := http_log w @ [erq]\<rparr>))"
    unfolding erq_def by (simp add: event_send_post)
  show "\<forall>e. requests_post ext erq = Inl e \<longrightarrow>
          event_send cfg ext phase t w = (Inl e, w\<lparr>http_log := http_log w @ [erq]\<rparr>)"
    by (simp add: s)
  show "\<forall>r. requests_post ext erq = Inr r \<longrightarrow>
     (reported_failure r \<longrightarrow>
        event_send cfg ext phase t w =
          (Inr (), w\<lparr>http_log := http_log w @ [erq], reports := Suc (reports w)\<rparr>)) \<and>
     (status_code r = 200 \<longrightarrow>
        (\<forall>e. json r = Inl e \<longrightarrow>
           event_send cfg ext phase t w = (Inl e, w\<lparr>http_log := http_log w @ [erq]\<rparr>)) \<and>
        (\<forall>kvs. json r = Inr (PDict kvs) \<and> map_of kvs ''StatusCode'' = None \<longrightarrow>
           event_send cfg ext phase t w = (Inl KeyError, w\<lparr>http_log := http_log w @ [erq]\<rparr>)) \<and>
        (\<forall>obj. json r = Inr obj \<and> (\<forall>kvs. obj \<noteq> PDict kvs) \<longrightarrow>
           event_send cfg ext phase t w = (Inl TypeError, w\<lparr>http_log := http_log w @ [erq]\<rparr>)) \<and>
        (\<forall>kvs v. json r = Inr (PDict kvs) \<and> map_of kvs ''StatusCode'' = Some v \<and> eq_zero v \<longrightarrow>
           event_send cfg ext phase t w = (Inr (), w\<lparr>http_log := http_log w @ [erq]\<rparr>)))"
    by (auto simp: s check_response_reported check_response_body)
qed

theorem best_effort_send_reports_once_witness:
  "lark_send demo_config
      (demo_collab\<lparr>requests_post := \<lambda>rq. Inr \<lparr>status_code = 500, json = Inl JSONDecodeError\<rparr>\<rparr>)
      REQUEST demo_ticket world0 =
     (Inr (), world0\<lparr>http_log := [\<lparr>req_url = ''http://hook/lark'',
                                    req_payload = JsonCard ''interactive'' (lark_card REQUEST demo_ticket),
                                    req_timeout = None\<rparr>],
                     reports := 1\<rparr>) \<and>
   fst (event_send demo_config
          (demo_collab\<lparr>requests_post := \<lambda>rq.
             Inr \<lparr>status_code = 200, json = Inr (PDict [(''StatusCode'', PInt 19001)])\<rparr>\<rparr>)
          APPROVAL demo_ticket world0) = Inr () \<and>
   reports (snd (event_send demo_config
          (demo_collab\<lparr>requests_post := \<lambda>rq.
             Inr \<lparr>status_code = 200, json = Inr (PDict [(''StatusCode'', PInt 19001)])\<rparr>\<rparr>)
          APPROVAL demo_ticket world0)) = 1 \<and>
   lark_send demo_config (demo_collab\<lparr>requests_post := \<lambda>rq. Inl ConnectionError\<rparr>)
      REQUEST demo_ticket world0 =
     (Inl ConnectionError,
      world0\<lparr>http_log := [\<lparr>req_url = ''http://hook/lark'',
                            req_payload = JsonCard ''interactive'' (lark_card REQUEST demo_ticket),
                            req_timeout = None\<rparr>]\<rparr>) \<and>
   lark_send demo_config
      (demo_collab\<lparr>requests_post := \<lambda>rq.
         Inr \<lparr>status_code = 200, json = Inr (PDict [(''code'', PInt 0)])\<rparr>\<rparr>)
      REQUEST demo_ticket world0 =
     (Inl KeyError,
      world0\<lparr>http_log := [\<lparr>req_url = ''http://hook/lark'',
                            req_payload = JsonCard ''interactive'' (lark_card REQUEST demo_ticket),
                            req_timeout = None\<rparr>]\<rparr>) \<and>
   lark_send demo_config demo_collab REQUEST demo_ticket world0 =
     (Inr (),
      world0\<lparr>http_log := [\<lparr>req_url = ''http://hook/lark'',
                            req_payload = JsonCard ''interactive'' (lark_card REQUEST demo_ticket),
                            req_timeout = None\<rparr>]\<rparr>) \<and>
   fst (event_send demo_config
          (demo_collab\<lparr>requests_post := \<lambda>rq. Inr \<lparr>status_code = 200, json = Inl JSONDecodeError\<rparr>\<rparr>)
          APPROVAL demo_ticket world0) = Inl JSONDecodeError \<and>
   reports (snd (event_send demo_config
          (demo_collab\<lparr>requests_post := \<lambda>rq. Inr \<lparr>status_code = 200, json = Inl JSONDecodeError\<rparr>\<rparr>)
          APPROVAL demo_ticket world0)) = 0 \<and>
   fst (event_send demo_config
          (demo_collab\<lparr>requests_post := \<lambda>rq. Inr \<lparr>status_code = 200, json = Inr (PList [])\<rparr>\<rparr>)
          APPROVAL demo_ticket world0) = Inl TypeError \<and>
   reports (snd (event_send demo_config
          (demo_collab\<lparr>requests_post := \<lambda>rq. Inr \<lparr>status_code = 200, json = Inr (PList [])\<rparr>\<rparr>)
          APPROVAL demo_ticket world0)) = 0"
proof -
  let ?lrq = "\<lparr>req_url = ''http://hook/lark'',
               req_payload = JsonCard ''interactive'' (lark_card REQUEST demo_ticket),
               req_timeout = None\<rparr>"
  let ?r500 = "\<lparr>status_code = 500, json = Inl JSONDecodeError\<rparr>"
  let ?r19001 = "\<lparr>status_code = 200, json = Inr (PDict [(''StatusCode'', PInt 19001)])\<rparr>"
  let ?rnokey = "\<lparr>status_code = 200, json = Inr (PDict [(''code'', PInt 0)])\<rparr>"
  let ?rnojson = "\<lparr>status_code = 200, json = Inl JSONDecodeError\<rparr>"
  let ?rlist = "\<lparr>status_code = 200, json = Inr (PList [])\<rparr>"
  obtain m where m: "event_render APPROVAL demo_ticket = Inr m"
    using event_render_total [of demo_ticket _ APPROVAL]
    by (auto simp: demo_ticket_def demo_annotation_def)
  have lu: "LARK_WEBHOOK_URL demo_config = Some ''http://hook/lark''"
    and eu: "WEBHOOK_EVENT_URL demo_config = Some ''http://hook/event''"
    by (simp_all add: demo_config_def)
  have w0: "http_log world0 = []" "reports world0 = 0"
    by (simp_all add: world0_def)
  note inst = best_effort_send_reports_once [where cfg = demo_config and t = demo_ticket
      and w = world0 and message = m]
  from inst [where url = "''http://hook/lark''" and phase = REQUEST
      and ext = "demo_collab\<lparr>requests_post := \<lambda>rq. Inr ?r500\<rparr>"]
  have 1: "lark_send demo_config (demo_collab\<lparr>requests_post := \<lambda>rq. Inr ?r500\<rparr>)
      REQUEST demo_ticket world0 = (Inr (), world0\<lparr>http_log := [?lrq], reports := 1\<rparr>)"
    by (simp add: lu eu w0 reported_failure_def)
  from inst [where url = "''http://hook/event''" and phase = APPROVAL
      and ext = "demo_collab\<lparr>requests_post := \<lambda>rq. Inr ?r19001\<rparr>"]
  have 2: "event_send demo_config (demo_collab\<lparr>requests_post := \<lambda>rq. Inr ?r19001\<rparr>)
      APPROVAL demo_ticket world0 =
     (Inr (), world0\<lparr>http_log := [\<lparr>req_url = ''http://hook/event'', req_payload = DataEvent m,
                                    req_timeout = None\<rparr>],
                     reports := 1\<rparr>)"
    by (simp add: lu eu w0 m reported_failure_def getitem_def eq_zero_def)
  from inst [where url = "''http://hook/lark''" and phase = REQUEST
      and ext = "demo_collab\<lparr>requests_post := \<lambda>rq. Inl ConnectionError\<rparr>"]
  have 3: "lark_send demo_config (demo_collab\<lparr>requests_post := \<lambda>rq. Inl ConnectionError\<rparr>)
      REQUEST demo_ticket world0 = (Inl ConnectionError, world0\<lparr>http_log := [?lrq]\<rparr>)"
    by (simp add: lu eu w0)
  from inst [where url = "''http://hook/lark''" and phase = REQUEST
      and ext = "demo_collab\<lparr>requests_post := \<lambda>rq. Inr ?rnokey\<rparr>"]
  have 4: "lark_send demo_config (demo_collab\<lparr>requests_post := \<lambda>rq. Inr ?rnokey\<rparr>)
      REQUEST demo_ticket world0 = (Inl KeyError, world0\<lparr>http_log := [?lrq]\<rparr>)"
    by (simp add: lu eu w0)
  have p: "requests_post demo_collab ?lrq =
             Inr \<lparr>status_code = 200, json = Inr (PDict [(''StatusCode'', PInt 0)])\<rparr>"
    by (simp add: demo_collab_def)
  from inst [where url = "''http://hook/lark''" and phase = REQUEST and ext = demo_collab]
  have 5: "lark_send demo_config demo_collab REQUEST demo_ticket world0 =
             (Inr (), world0\<lparr>http_log := [?lrq]\<rparr>)"
    by (simp add: lu eu w0 p eq_zero_def)
  from inst [where url = "''http://hook/event''" and phase = APPROVAL
      and ext = "demo_collab\<lparr>requests_post := \<lambda>rq. Inr ?rnojson\<rparr>"]
  have 6: "event_send demo_config (demo_collab\<lparr>requests_post := \<lambda>rq. Inr ?rnojson\<rparr>)
      APPROVAL demo_ticket world0 =
     (Inl JSONDecodeError,
      world0\<lparr>http_log := [\<lparr>req_url = ''http://hook/event'', req_payload = DataEvent m,
                            req_timeout = None\<rparr>]\<rparr>)"
    by (simp add: lu eu w0 m)
  from inst [where url = "''http://hook/event''" and phase = APPROVAL
      and ext = "demo_collab\<lparr>requests_post := \<lambda>rq. Inr ?rlist\<rparr>"]
  have 7: "event_send demo_config (demo_collab\<lparr>requests_post := \<lambda>rq. Inr ?rlist\<rparr>)
      APPROVAL demo_ticket world0 =
     (Inl TypeError,
      world0\<lparr>http_log := [\<lparr>req_url = ''http://hook/event'', req_payload = DataEvent m,
                            req_timeout = None\<rparr>]\<rparr>)"
    by (simp add: lu eu w0 m)
  from 1 2 3 4 5 6 7 show ?thesis
    by (simp add: w0)
qed

theorem best_effort_send_raises_counterexample:
  "fst (lark_send demo_config (demo_collab\<lparr>requests_post := \<lambda>rq. Inl ConnectionError\<rparr>)
          REQUEST demo_ticket world0) = Inl ConnectionError \<and>
   reports (snd (lark_send demo_config (demo_collab\<lparr>requests_post := \<lambda>rq. Inl ConnectionError\<rparr>)
          REQUEST demo_ticket world0)) = 0 \<and>
   fst (event_send demo_config
          (demo_collab\<lparr>requests_post := \<lambda>rq. Inr \<lparr>status_code = 200, json = Inl JSONDecodeError\<rparr>\<rparr>)
          REQUEST demo_ticket world0) = Inl JSONDecodeError \<and>
   reports (snd (event_send demo_config
          (demo_collab\<lparr>requests_post := \<lambda>rq. Inr \<lparr>status_code = 200, json = Inl JSONDecodeError\<rparr>\<rparr>)
          REQUEST demo_ticket world0)) = 0"
proof -
  obtain m where m: "event_render REQUEST demo_ticket = Inr m"
    using event_render_total [of demo_ticket _ REQUEST]
    by (auto simp: demo_ticket_def demo_annotation_def)
  show ?thesis
    by (simp add: lark_send_def event_send_def m post_def check_response_def
        demo_config_def world0_def)
qed

section \<open>Generic webhook: the POST\<close>

lemma phase_request: "phase_value phase = ''request'' \<longleftrightarrow> phase = REQUEST"
  by (cases phase) (simp add: REQUEST_def)

text \<open>
  C9, as the code has it. With a URL configured and the template rendered to
  \<open>(ttl, body)\<close>, \<open>send\<close> makes exactly one POST to that URL, with a timeout of 3
  seconds and the six fields from, title, link, color, text and markdown; the color is
  \<^verbatim>\<open>#17a2b8\<close> in the request phase for a ticket approved so far, \<^verbatim>\<open>#ffc107\<close> in the
  request phase otherwise, and the ticket's own color in every other phase. The call
  fails with what the POST raises, or with \<open>HTTPError\<close> when the response has a status
  from 400 to 599; with any other status it succeeds.
\<close>

theorem webhook_send_post:
  assumes "WEBHOOK_URL cfg = Some url" and "url \<noteq> []"
    and "render ext ''webhook'' phase t = Inr (ttl, body)"
  shows "(let rq = \<lparr>req_url = url,
                    req_payload = JsonObject
                      [(''from'', ''helpdesk''),
                       (''title'', ttl),
                       (''link'', web_url t),
                       (''color'', if phase = REQUEST
                                   then (if is_approved t = Some True then ''#17a2b8'' else ''#ffc107'')
                                   else color t),
                       (''text'', ttl @ ''\<newline>'' @ web_url t @ ''\<newline>'' @ body),
                       (''markdown'', body)],
                    req_timeout = Some 3\<rparr>
          in webhook_send cfg ext phase t w =
               (case requests_post ext rq of
                  Inl e \<Rightarrow> Inl e
                | Inr r \<Rightarrow> if 400 \<le> status_code r \<and> status_code r < 600 then Inl HTTPError else Inr (),
                w\<lparr>http_log := http_log w @ [rq]\<rparr>))"
  using assms
  by (simp add: webhook_send_def Let_def post_def get_color_def phase_request raise_for_status_def
      split: sum.splits)

lemma demo_render_webhook:
  "render (demo_collab\<lparr>requests_post := f\<rparr>) ''webhook'' phase demo_ticket = Inr (''T'', ''C'')"
  by (simp add: render_def demo_collab_def demo_fromstring_def strip_def py_isspace_def findall_def)

theorem webhook_send_post_witness:
  "webhook_send demo_config
      (demo_collab\<lparr>requests_post := \<lambda>rq. Inr \<lparr>status_code = 404, json = Inl JSONDecodeError\<rparr>\<rparr>)
      REQUEST demo_ticket world0 =
     (Inl HTTPError,
      world0\<lparr>http_log :=
        [\<lparr>req_url = ''http://hook/generic'',
          req_payload = JsonObject
            [(''from'', ''helpdesk''), (''title'', ''T''), (''link'', ''http://hd/ticket/1''),
             (''color'', ''#ffc107''), (''text'', ''T\<newline>http://hd/ticket/1\<newline>C''),
             (''markdown'', ''C'')],
          req_timeout = Some 3\<rparr>]\<rparr>)"
proof -
  have u: "WEBHOOK_URL demo_config = Some ''http://hook/generic''"
    by (simp add: demo_config_def)
  have n: "''http://hook/generic'' \<noteq> []"
    by simp
  from webhook_send_post
    [OF u n demo_render_webhook
       [of "\<lambda>rq. Inr \<lparr>status_code = 404, json = Inl JSONDecodeError\<rparr>" REQUEST],
     of world0]
  show ?thesis
    by (simp add: Let_def demo_ticket_def world0_def)
qed

theorem webhook_send_status_304_counterexample:
  "fst (webhook_send demo_config
          (demo_collab\<lparr>requests_post := \<lambda>rq. Inr \<lparr>status_code = 304, json = Inl JSONDecodeError\<rparr>\<rparr>)
          REQUEST demo_ticket world0) = Inr ()"
  by (simp add: webhook_send_def demo_render_webhook post_def raise_for_status_def demo_config_def
      Let_def)


section \<open>Event webhook: the message\<close>

lemma scan_last_match:
  assumes "i < k" and "name (ns ! i) = cur"
    and "\<forall>j. i < j \<and> j < k \<longrightarrow> name (ns ! j) \<noteq> cur"
  shows "foldl (scan_step ns cur) acc [0..<k] =
           (if i \<noteq> length ns - 1 then name (ns ! (i + 1)) else Some [], node_type (ns ! i))"
  using assms
proof (induction k)
  case 0
  then show ?case by simp
next
  case (Suc k)
  show ?case
  proof (cases "i = k")
    case True
    with Suc.prems show ?thesis
      by (simp add: scan_step_def)
  next
    case False
    with Suc.prems have ik: "i < k" by simp
    from Suc.prems ik have skip: "name (ns ! k) \<noteq> cur" by simp
    from Suc.prems have "\<forall>j. i < j \<and> j < k \<longrightarrow> name (ns ! j) \<noteq> cur" by simp
    from Suc.IH [OF ik Suc.prems(2) this] skip show ?thesis
      by (auto simp: scan_step_def)
  qed
qed

text \<open>
  C5. When the nodes are present and node \<open>i\<close> is the one named by
  \<^verbatim>\<open>current_node\<close> (the last one of that name, should the name occur again), the message
  that \<open>render\<close> builds has as \<open>next_node\<close> the name of node \<open>i + 1\<close>, or the empty
  string when node \<open>i\<close> is the last node, and as \<open>notify_type\<close> the type of node \<open>i\<close>.
\<close>

theorem event_render_next_node:
  assumes "nodes (annotation t) = Some ns" and "i < length ns"
    and "name (ns ! i) = current_node (annotation t)"
    and "\<forall>j. i < j \<and> j < length ns \<longrightarrow> name (ns ! j) \<noteq> current_node (annotation t)"
  shows "\<exists>m. event_render phase t = Inr m \<and>
             nm_next_node m = (if i = length ns - 1 then Some [] else name (ns ! (i + 1))) \<and>
             nm_notify_type m = node_type (ns ! i)"
  using assms(1) scan_last_match [OF assms(2-4)]
  by (simp add: event_render_def)

theorem event_render_next_node_witness:
  "map_sum id nm_next_node (event_render REQUEST demo_ticket) = Inr (Some ''C'') \<and>
   map_sum id nm_notify_type (event_render REQUEST demo_ticket) = Inr (Some ''approval'') \<and>
   map_sum id nm_next_node
     (event_render REQUEST (demo_ticket\<lparr>annotation := demo_annotation\<lparr>current_node := Some ''C''\<rparr>\<rparr>))
     = Inr (Some '''') \<and>
   map_sum id nm_notify_type
     (event_render REQUEST (demo_ticket\<lparr>annotation := demo_annotation\<lparr>current_node := Some ''C''\<rparr>\<rparr>))
     = Inr (Some ''final'')"
proof -
  let ?ns = "[\<lparr>name = Some ''A'', node_type = Some ''cc''\<rparr>,
              \<lparr>name = Some ''B'', node_type = Some ''approval''\<rparr>,
              \<lparr>name = Some ''C'', node_type = Some ''final''\<rparr>]"
  let ?t = "demo_ticket\<lparr>annotation := demo_annotation\<lparr>current_node := Some ''C''\<rparr>\<rparr>"
  have n1: "nodes (annotation demo_ticket) = Some ?ns"
    by (simp add: demo_ticket_def demo_annotation_def)
  have c1: "name (?ns ! 1) = current_node (annotation demo_ticket)"
    by (simp add: demo_ticket_def demo_annotation_def)
  have l1: "\<forall>j. 1 < j \<and> j < length ?ns \<longrightarrow> name (?ns ! j) \<noteq> current_node (annotation demo_ticket)"
  proof (intro allI impI)
    fix j :: nat assume "1 < j \<and> j < length ?ns"
    then have "j = 2" by simp
    then show "name (?ns ! j) \<noteq> current_node (annotation demo_ticket)"
      by (simp add: demo_ticket_def demo_annotation_def)
  qed
  have n2: "nodes (annotation ?t) = Some ?ns"
    by (simp add: demo_annotation_def)
  have c2: "name (?ns ! 2) = current_node (annotation ?t)"
    by simp
  have l2: "\<forall>j. 2 < j \<and> j < length ?ns \<longrightarrow> name (?ns ! j) \<noteq> current_node (annotation ?t)"
    by simp
  from event_render_next_node [OF n1 _ c1 l1, of REQUEST]
  have a: "map_sum id nm_next_node (event_render REQUEST demo_ticket) = Inr (Some ''C'')"
    "map_sum id nm_notify_type (event_render REQUEST demo_ticket) = Inr (Some ''approval'')"
    by auto
  from event_render_next_node [OF n2 _ c2 l2, of REQUEST]
  have b: "map_sum id nm_next_node (event_render REQUEST ?t) = Inr (Some '''')"
    "map_sum id nm_notify_type (event_render REQUEST ?t) = Inr (Some ''final'')"
    by auto
  from a b show ?thesis by simp
qed

text \<open>
  C10. Whenever \<open>render\<close> builds a message (the nodes are present), its \<open>is_approved\<close>
  field is the boolean "the ticket is approved": true for an approved ticket, false for a
  rejected one, and false for a ticket whose approval is unset.
\<close>

theorem event_render_is_approved_bool:
  assumes "nodes (annotation t) = Some ns"
  shows "\<exists>m. event_render phase t = Inr m \<and>
             nm_is_approved m = (is_approved t = Some True) \<and>
             (is_approved t = None \<longrightarrow> nm_is_approved m = False)"
  using assms
  by (auto simp: event_render_def or_False_def split: prod.splits option.splits bool.splits)

theorem event_render_is_approved_bool_witness:
  "map_sum id nm_is_approved (event_render MARK demo_ticket) = Inr False \<and>
   map_sum id nm_is_approved (event_render MARK (demo_ticket\<lparr>is_approved := Some True\<rparr>)) = Inr True"
proof -
  let ?ns = "[\<lparr>name = Some ''A'', node_type = Some ''cc''\<rparr>,
              \<lparr>name = Some ''B'', node_type = Some ''approval''\<rparr>,
              \<lparr>name = Some ''C'', node_type = Some ''final''\<rparr>]"
  have n1: "nodes (annotation demo_ticket) = Some ?ns"
    by (simp add: demo_ticket_def demo_annotation_def)
  have n2: "nodes (annotation (demo_ticket\<lparr>is_approved := Some True\<rparr>)) = Some ?ns"
    by (simp add: demo_ticket_def demo_annotation_def)
  have u: "is_approved demo_ticket = None"
    by (simp add: demo_ticket_def)
  from event_render_is_approved_bool [OF n1, of MARK] u
  have a: "map_sum id nm_is_approved (event_render MARK demo_ticket) = Inr False"
    by auto
  from event_render_is_approved_bool [OF n2, of MARK]
  have b: "map_sum id nm_is_approved (event_render MARK (demo_ticket\<lparr>is_approved := Some True\<rparr>)) = Inr True"
    by auto
  from a b show ?thesis by simp
qed

section \<open>Chat card: the card and its content\<close>

lemma phases_distinct:
  "REQUEST \<noteq> APPROVAL" "REQUEST \<noteq> MARK" "APPROVAL \<noteq> MARK"
  "APPROVAL \<noteq> REQUEST" "MARK \<noteq> REQUEST" "MARK \<noteq> APPROVAL"
  by (simp_all add: REQUEST_def APPROVAL_def MARK_def)

lemma check_response_http_log: "http_log (snd (check_response r w)) = http_log w"
  by (simp add: check_response_def report_def split: sum.splits)

lemma lark_send_http_log:
  assumes "LARK_WEBHOOK_URL cfg = Some url" and "url \<noteq> []"
  shows "http_log (snd (lark_send cfg ext phase t w)) =
           http_log w @ [\<lparr>req_url = url, req_payload = JsonCard ''interactive'' (lark_card phase t),
                           req_timeout = None\<rparr>]"
  using assms
  by (simp add: lark_send_def post_def check_response_http_log split: sum.splits)

lemma auto_approved_line:
  assumes "is_auto_approved t"
  shows "''auto approved'' \<in> set (split CHR ''\<newline>'' (snd (lark_render REQUEST t)))"
proof -
  have "snd (lark_render REQUEST t) =
          (lark_header t @ ''Reason: '' @ str_of (reason t)) @ CHR ''\<newline>'' # (''auto approved'' @ CHR ''\<newline>'' # [])"
    using assms by (simp add: lark_render_def Let_def)
  then have "split CHR ''\<newline>'' (snd (lark_render REQUEST t)) =
          split CHR ''\<newline>'' (lark_header t @ ''Reason: '' @ str_of (reason t))
            @ split CHR ''\<newline>'' ''auto approved'' @ split CHR ''\<newline>'' []"
    by (simp only: split_append_sep)
  then show ?thesis by simp
qed

text \<open>
  C6. In the request phase the card that \<open>send\<close> posts starts with the rendered content
  as its markdown element. For a ticket that is not auto approved its action buttons are
  exactly two, Approve and Reject, linking to the ticket's URL followed by
  \<^verbatim>\<open>/approve\<close> and \<^verbatim>\<open>/reject\<close>; for an auto approved ticket it has no action button
  and \<^verbatim>\<open>auto approved\<close> is one of the lines of the content.
\<close>

theorem lark_request_card_buttons:
  "(LARK_WEBHOOK_URL cfg = Some url \<and> url \<noteq> [] \<longrightarrow>
      http_log (snd (lark_send cfg ext REQUEST t w)) =
        http_log w @ [\<lparr>req_url = url, req_payload = JsonCard ''interactive'' (lark_card REQUEST t),
                        req_timeout = None\<rparr>]) \<and>
   hd (elements (lark_card REQUEST t)) = Markdown (snd (lark_render REQUEST t)) \<and>
   (\<not> is_auto_approved t \<longrightarrow>
      buttons (lark_card REQUEST t) =
        [\<lparr>btn_tag = ''button'', btn_text_tag = ''plain_text'', btn_text_content = ''Approve'',
          btn_type = ''primary'', btn_url = web_url t @ ''/approve''\<rparr>,
         \<lparr>btn_tag = ''button'', btn_text_tag = ''plain_text'', btn_text_content = ''Reject'',
          btn_type = ''danger'', btn_url = web_url t @ ''/reject''\<rparr>]) \<and>
   (is_auto_approved t \<longrightarrow>
      buttons (lark_card REQUEST t) = [] \<and>
      ''auto approved'' \<in> set (split CHR ''\<newline>'' (snd (lark_render REQUEST t))))"
proof (intro conjI impI)
  assume "LARK_WEBHOOK_URL cfg = Some url \<and> url \<noteq> []"
  then show "http_log (snd (lark_send cfg ext REQUEST t w)) =
        http_log w @ [\<lparr>req_url = url, req_payload = JsonCard ''interactive'' (lark_card REQUEST t),
                        req_timeout = None\<rparr>]"
    by (simp add: lark_send_http_log)
next
  show "hd (elements (lark_card REQUEST t)) = Markdown (snd (lark_render REQUEST t))"
    by (simp add: lark_card_def Let_def split: prod.splits)
next
  assume "\<not> is_auto_approved t"
  then show "buttons (lark_card REQUEST t) =
        [\<lparr>btn_tag = ''button'', btn_text_tag = ''plain_text'', btn_text_content = ''Approve'',
          btn_type = ''primary'', btn_url = web_url t @ ''/approve''\<rparr>,
         \<lparr>btn_tag = ''button'', btn_text_tag = ''plain_text'', btn_text_content = ''Reject'',
          btn_type = ''danger'', btn_url = web_url t @ ''/reject''\<rparr>]"
    by (simp add: lark_card_def buttons_def Let_def split: prod.splits)
next
  assume "is_auto_approved t"
  then show "buttons (lark_card REQUEST t) = []"
    by (simp add: lark_card_def buttons_def Let_def split: prod.splits)
next
  assume "is_auto_approved t"
  then show "''auto approved'' \<in> set (split CHR ''\<newline>'' (snd (lark_render REQUEST t)))"
    by (rule auto_approved_line)
qed

lemma demo_lark_header:
  "lark_header (demo_ticket\<lparr>is_auto_approved := b, reason := r, is_approved := a\<rparr>) =
     ''[Ticket url](http://hd/ticket/1)\<newline>Parameters:\<newline>  host: web1\<newline>Request time: 2024-01-01 08:00:00\<newline>''"
  by (simp add: lark_header_def demo_ticket_def)

theorem lark_request_card_buttons_witness:
  "buttons (lark_card REQUEST demo_ticket) =
     [\<lparr>btn_tag = ''button'', btn_text_tag = ''plain_text'', btn_text_content = ''Approve'',
       btn_type = ''primary'', btn_url = ''http://hd/ticket/1/approve''\<rparr>,
      \<lparr>btn_tag = ''button'', btn_text_tag = ''plain_text'', btn_text_content = ''Reject'',
       btn_type = ''danger'', btn_url = ''http://hd/ticket/1/reject''\<rparr>] \<and>
   buttons (lark_card REQUEST (demo_ticket\<lparr>is_auto_approved := True\<rparr>)) = [] \<and>
   ''auto approved'' \<in>
     set (split CHR ''\<newline>'' (snd (lark_render REQUEST (demo_ticket\<lparr>is_auto_approved := True\<rparr>)))) \<and>
   http_log (snd (lark_send demo_config demo_collab REQUEST demo_ticket world0)) =
     [\<lparr>req_url = ''http://hook/lark'', req_payload = JsonCard ''interactive'' (lark_card REQUEST demo_ticket),
       req_timeout = None\<rparr>]"
proof -
  have f: "\<not> is_auto_approved demo_ticket"
    by (simp add: demo_ticket_def)
  have g: "is_auto_approved (demo_ticket\<lparr>is_auto_approved := True\<rparr>)"
    by simp
  have u: "LARK_WEBHOOK_URL demo_config = Some ''http://hook/lark'' \<and> ''http://hook/lark'' \<noteq> []"
    by (simp add: demo_config_def)
  have w: "web_url demo_ticket = ''http://hd/ticket/1''"
    by (simp add: demo_ticket_def)
  from lark_request_card_buttons [of demo_config "''http://hook/lark''" demo_collab demo_ticket world0] f u w
  have 1: "buttons (lark_card REQUEST demo_ticket) =
     [\<lparr>btn_tag = ''button'', btn_text_tag = ''plain_text'', btn_text_content = ''Approve'',
       btn_type = ''primary'', btn_url = ''http://hd/ticket/1/approve''\<rparr>,
      \<lparr>btn_tag = ''button'', btn_text_tag = ''plain_text'', btn_text_content = ''Reject'',
       btn_type = ''danger'', btn_url = ''http://hd/ticket/1/reject''\<rparr>]"
    and 2: "http_log (snd (lark_send demo_config demo_collab REQUEST demo_ticket world0)) =
     [\<lparr>req_url = ''http://hook/lark'', req_payload = JsonCard ''interactive'' (lark_card REQUEST demo_ticket),
       req_timeout = None\<rparr>]"
    by (simp_all add: world0_def)
  from lark_request_card_buttons [of demo_config "''http://hook/lark''" demo_collab
      "demo_ticket\<lparr>is_auto_approved := True\<rparr>" world0] g
  have 3: "buttons (lark_card REQUEST (demo_ticket\<lparr>is_auto_approved := True\<rparr>)) = []"
    and 4: "''auto approved'' \<in>
     set (split CHR ''\<newline>'' (snd (lark_render REQUEST (demo_ticket\<lparr>is_auto_approved := True\<rparr>))))"
    by simp_all
  from 1 2 3 4 show ?thesis by simp
qed

text \<open>
  C7. In the approval phase, for a ticket that is not approved, the content is the
  common header followed by the line \<^verbatim>\<open>Reject reason: \<close> with the ticket's reason when
  that reason differs from the one in the annotation, and the common header alone when
  the two are equal.
\<close>

theorem lark_rejected_reason_line:
  assumes "is_approved t \<noteq> Some True"
  shows "snd (lark_render APPROVAL t) =
           lark_header t @
             (if reason t \<noteq> ann_reason (annotation t)
              then ''Reject reason: '' @ str_of (reason t) else [])"
  using assms
  by (simp add: lark_render_def Let_def phases_distinct)

theorem lark_rejected_reason_line_witness:
  "snd (lark_render APPROVAL
          (demo_ticket\<lparr>is_auto_approved := False, reason := Some ''no budget'', is_approved := Some False\<rparr>)) =
     ''[Ticket url](http://hd/ticket/1)\<newline>Parameters:\<newline>  host: web1\<newline>Request time: 2024-01-01 08:00:00\<newline>Reject reason: no budget'' \<and>
   snd (lark_render APPROVAL
          (demo_ticket\<lparr>is_auto_approved := False, reason := Some ''disk full'', is_approved := Some False\<rparr>)) =
     ''[Ticket url](http://hd/ticket/1)\<newline>Parameters:\<newline>  host: web1\<newline>Request time: 2024-01-01 08:00:00\<newline>''"
proof -
  let ?t = "demo_ticket\<lparr>is_auto_approved := False, reason := Some ''no budget'', is_approved := Some False\<rparr>"
  let ?u = "demo_ticket\<lparr>is_auto_approved := False, reason := Some ''disk full'', is_approved := Some False\<rparr>"
  have a: "is_approved ?t \<noteq> Some True" "is_approved ?u \<noteq> Some True"
    by simp_all
  have r: "ann_reason (annotation ?t) = Some ''disk full''" "ann_reason (annotation ?u) = Some ''disk full''"
    by (simp_all add: demo_ticket_def demo_annotation_def)
  from lark_rejected_reason_line [OF a(1)] r(1)
  have 1: "snd (lark_render APPROVAL ?t) =
     ''[Ticket url](http://hd/ticket/1)\<newline>Parameters:\<newline>  host: web1\<newline>Request time: 2024-01-01 08:00:00\<newline>Reject reason: no budget''"
    by (simp add: demo_lark_header str_of_def)
  from lark_rejected_reason_line [OF a(2)] r(2)
  have 2: "snd (lark_render APPROVAL ?u) =
     ''[Ticket url](http://hd/ticket/1)\<newline>Parameters:\<newline>  host: web1\<newline>Request time: 2024-01-01 08:00:00\<newline>''"
    by (simp add: demo_lark_header)
  from 1 2 show ?thesis by simp
qed


end
